theory Spec2Isabelle
  imports Main "HOL-Library.Word"
begin

section \<open>The KPA scaler (pkg/reconciler/autoscaling/kpa/scaler.go)\<close>

text \<open>
  Go's \<open>int32\<close> is a 32-bit word read as two's complement, so \<open>x < min\<close> of the
  source is the signed order \<open>x <s min\<close>.  \<open>time.Duration\<close> is an \<open>int64\<close> count of
  nanoseconds, whose \<open>+\<close> and \<open>-\<close> wrap around.  The pointers that \<open>scaler.go\<close>
  dereferences without a check (the PA, the SKS, the configuration in the context) are
  taken to be non-nil; \<open>ps.Spec.Replicas\<close>, which it does check, is an option.
\<close>

type_synonym int32 = "32 word"
type_synonym Duration = "64 word"

subsection \<open>Constants\<close>

definition Second :: Duration where
  "Second = 1000000000"

definition scaleUnknown :: int32 where
  "scaleUnknown = - 1"

definition probePeriod :: Duration where
  "probePeriod = 1 * Second"

definition probeTimeout :: Duration where
  "probeTimeout = 45 * Second"

definition reenqeuePeriod :: Duration where
  "reenqeuePeriod = 1 * Second"

definition activationTimeoutBuffer :: Duration where
  "activationTimeoutBuffer = 10 * Second"

subsection \<open>Data\<close>

text \<open>
  The objects the scaler reads.  Only the fields that \<open>scaler.go\<close> touches are kept.
  The \<open>Active\<close> condition of a PodAutoscaler has three values; the source's \<open>switch\<close>
  names them in its comments: \<open>Active=Unknown\<close>, \<open>Active=True\<close>, \<open>Active=False\<close>.
\<close>

datatype ConditionStatus = ConditionTrue | ConditionFalse | ConditionUnknown

datatype ServerlessServiceOperationMode = SKSOperationModeServe | SKSOperationModeProxy

record ObjectReference =
  APIVersion :: string
  Kind :: string
  RefName :: string

record PodAutoscalerSpec =
  ScaleTargetRef :: ObjectReference
  ProtocolType :: string

record PodAutoscalerStatus =
  ServiceName :: string
  Active :: ConditionStatus

record PodAutoscaler =
  Namespace :: string
  Name :: string
  Spec :: PodAutoscalerSpec
  Status :: PodAutoscalerStatus

record ServerlessServiceSpec =
  Mode :: ServerlessServiceOperationMode

record ServerlessService =
  sksName :: string
  sksSpec :: ServerlessServiceSpec

record PodScalableSpec =
  Replicas :: "int32 option"

record PodScalable =
  psName :: string
  psSpec :: PodScalableSpec

record AutoscalerConfig =
  EnableScaleToZero :: bool
  ScaleToZeroGracePeriod :: Duration

record DeploymentConfig =
  ProgressDeadline :: Duration

text \<open>What \<open>config.FromContext ctx\<close> returns.\<close>

record Config =
  Autoscaler :: AutoscalerConfig
  Deployment :: DeploymentConfig

text \<open>
  Go errors.  The errors of the collaborators are opaque; the two that \<open>scale\<close> and
  \<open>applyScale\<close> build with \<open>fmt.Errorf\<close> keep the values they format and the error
  they wrap.
\<close>

datatype error =
    ExternalError string
  | FailedToGetScaleTarget ObjectReference error
  | FailedToApplyScale int32 string error

text \<open>
  Modelled from the spec: the bodies of \<open>pa.Status.IsActivating\<close> and
  \<open>pa.Status.IsReady\<close> are not in the source tree.  The spec gives \<open>status.active\<close> as a
  tri-state (True/False/Unknown for Active/Inactive/Activating), and the comments of
  the \<open>switch\<close> in \<open>handleScaleToZero\<close> say the same.
\<close>

definition IsActivating :: "PodAutoscalerStatus \<Rightarrow> bool" where
  "IsActivating st = (Active st = ConditionUnknown)"

definition IsReady :: "PodAutoscalerStatus \<Rightarrow> bool" where
  "IsReady st = (Active st = ConditionTrue)"

subsection \<open>Collaborators\<close>

text \<open>
  Everything \<open>scaler.go\<close> calls that lives outside it is a parameter: the clock, the
  time predicates of the PA and SKS status, the stable window and scale bounds, the
  network helpers, the prober, the informer cache and the dynamic client.  A theorem
  that quantifies over \<open>externals\<close> holds whatever these do.
  \<^item> \<open>Now\<close>: \<open>time.Now()\<close>, in nanoseconds;
  \<^item> \<open>CanFailActivation e pa now d\<close>: \<open>pa.Status.CanFailActivation(now, d)\<close>, and
    likewise \<open>ActiveFor\<close> and \<open>CanScaleToZero\<close>;
  \<^item> \<open>ProxyFor e sks\<close>: \<open>sks.Status.ProxyFor()\<close>;
  \<^item> \<open>StableWindow e pa cfgAS\<close>: \<open>aresources.StableWindow(pa, cfgAS)\<close>;
  \<^item> \<open>ScaleBounds e pa\<close>: \<open>pa.ScaleBounds()\<close>;
  \<^item> \<open>GetServiceHostname\<close>, \<open>ServicePort\<close>: the helpers of \<open>pkgnet\<close> and \<open>networking\<close>;
  \<^item> \<open>proberDo e target\<close>: the answer of \<open>prober.Do\<close> for that URL;
  \<^item> \<open>GetScaleResource\<close>, \<open>ScaleResourceArguments\<close>: package \<open>resources\<close>;
  \<^item> \<open>CreatePatch\<close>, \<open>MarshalJSON\<close>: package \<open>duck\<close> and the patch it builds;
  \<^item> \<open>PatchResult e gvr ns name bytes\<close>: the error (if any) of the dynamic client's
    \<open>Patch\<close> call.
\<close>

type_synonym Time = int

record externals =
  Now :: Time
  CanFailActivation :: "PodAutoscaler \<Rightarrow> Time \<Rightarrow> Duration \<Rightarrow> bool"
  ActiveFor :: "PodAutoscaler \<Rightarrow> Time \<Rightarrow> Duration"
  CanScaleToZero :: "PodAutoscaler \<Rightarrow> Time \<Rightarrow> Duration \<Rightarrow> bool"
  ProxyFor :: "ServerlessService \<Rightarrow> Duration"
  StableWindow :: "PodAutoscaler \<Rightarrow> AutoscalerConfig \<Rightarrow> Duration"
  ScaleBounds :: "PodAutoscaler \<Rightarrow> int32 \<times> int32"
  GetServiceHostname :: "string \<Rightarrow> string \<Rightarrow> string"
  ServicePort :: "string \<Rightarrow> int"
  proberDo :: "string \<Rightarrow> bool \<times> error option"
  GetScaleResource :: "string \<Rightarrow> ObjectReference \<Rightarrow> error + PodScalable"
  ScaleResourceArguments :: "ObjectReference \<Rightarrow> error + (string \<times> string)"
  CreatePatch :: "PodScalable \<Rightarrow> PodScalable \<Rightarrow> error + string"
  MarshalJSON :: "string \<Rightarrow> error + string"
  PatchResult :: "string \<Rightarrow> string \<Rightarrow> string \<Rightarrow> string \<Rightarrow> error option"

subsection \<open>Effects\<close>

text \<open>
  What an invocation does to the outside is the list of its calls, in order:
  \<^item> \<open>EnqueueCB pa d\<close>: \<open>ks.enqueueCB(pa, d)\<close>;
  \<^item> \<open>ProbeManagerOffer target pa period timeout\<close>: \<open>ks.probeManager.Offer\<close> with that
    key, argument, period and timeout (the probe options are the same constant on
    every call and are left out);
  \<^item> \<open>ProberDo target\<close>: one HTTP request of \<open>prober.Do\<close> to that URL;
  \<^item> \<open>DynamicPatch gvr ns name bytes\<close>: the PATCH sent through the dynamic client.
  Log lines are not recorded.
\<close>

datatype effect =
    EnqueueCB PodAutoscaler Duration
  | ProbeManagerOffer string PodAutoscaler Duration Duration
  | ProberDo string
  | DynamicPatch string string string string

text \<open>
  The \<open>scaler\<close> struct.  \<open>ksActivatorProbe\<close> is its field \<open>activatorProbe\<close> (the
  synchronous probe, replaced in tests): it returns the probe's answer and the URLs it
  requested.  The answer of \<open>probeManager.Offer\<close> only chooses a log line, so the
  field \<open>probeManager\<close> is the event \<open>ProbeManagerOffer\<close> and the field \<open>enqueueCB\<close> is
  the event \<open>EnqueueCB\<close>.  The transport, the informer factory and the dynamic client
  are in \<open>externals\<close>.
\<close>

record scaler =
  ksActivatorProbe :: "PodAutoscaler \<Rightarrow> (bool \<times> error option) \<times> string list"

subsection \<open>Probe target and synchronous probe\<close>

text \<open>\<open>%d\<close> of \<open>fmt.Sprintf\<close>: the decimal digits of an integer.\<close>

fun digits :: "nat \<Rightarrow> string" where
  "digits n =
     (if n < 10 then [''0123456789'' ! n]
      else digits (n div 10) @ [''0123456789'' ! (n mod 10)])"

declare digits.simps [simp del]

definition formatInt :: "int \<Rightarrow> string" where
  "formatInt i = (if i < 0 then ''-'' @ digits (nat (- i)) else digits (nat i))"

definition paToProbeTarget :: "externals \<Rightarrow> PodAutoscaler \<Rightarrow> string" where
  "paToProbeTarget e pa =
     (let svc = GetServiceHostname e (ServiceName (Status pa)) (Namespace pa);
          port = ServicePort e (ProtocolType (Spec pa))
      in ''http://'' @ svc @ '':'' @ formatInt port @ ''/healthz'')"

definition activatorProbe :: "externals \<Rightarrow> PodAutoscaler \<Rightarrow> (bool \<times> error option) \<times> string list" where
  "activatorProbe e pa =
     (if ServiceName (Status pa) = [] then ((False, None), [])
      else (proberDo e (paToProbeTarget e pa), [paToProbeTarget e pa]))"

text \<open>
  \<open>newScaler\<close>: the production scaler probes with \<open>activatorProbe\<close>; the probe manager
  it creates with \<open>prober.New\<close> is given the callback \<open>newScaler_done\<close>, which
  re-enqueues its argument whatever the outcome.
\<close>

definition newScaler_done :: "PodAutoscaler \<Rightarrow> bool \<Rightarrow> error option \<Rightarrow> effect list" where
  "newScaler_done arg success err = [EnqueueCB arg reenqeuePeriod]"

definition newScaler :: "externals \<Rightarrow> scaler" where
  "newScaler e = \<lparr>ksActivatorProbe = activatorProbe e\<rparr>"

subsection \<open>Bounds clamp\<close>

definition applyBounds :: "int32 \<Rightarrow> int32 \<Rightarrow> int32 \<Rightarrow> int32" where
  "applyBounds mn mx x =
     (if x <s mn then mn
      else if mx \<noteq> 0 \<and> mx <s x then mx
      else x)"

subsection \<open>The scale-to-zero decision\<close>

text \<open>
  \<open>handleScaleToZero\<close> returns the scale to use, whether to apply it, and the calls it
  made: the requests of the synchronous probe first, then the enqueue or the offer.
\<close>

definition handleScaleToZero ::
  "externals \<Rightarrow> scaler \<Rightarrow> Config \<Rightarrow> PodAutoscaler \<Rightarrow> ServerlessService \<Rightarrow> int32
     \<Rightarrow> (int32 \<times> bool) \<times> effect list" where
  "handleScaleToZero e ks cfgs pa sks desiredScale =
     (if desiredScale \<noteq> 0 then ((desiredScale, True), [])
      else
        let cfgAS = Autoscaler cfgs in
        if \<not> EnableScaleToZero cfgAS then ((1, True), [])
        else
          let cfgD = Deployment cfgs;
              activationTimeout = ProgressDeadline cfgD + activationTimeoutBuffer;
              now = Now e
          in
          if IsActivating (Status pa) then
            (if CanFailActivation e pa now activationTimeout then ((desiredScale, True), [])
             else ((scaleUnknown, False), [EnqueueCB pa activationTimeout]))
          else if IsReady (Status pa) then
            (let sw = StableWindow e pa cfgAS;
                 af = ActiveFor e pa now
             in
             if sw \<le>s af then
               ((desiredScale, False),
                (if Mode (sksSpec sks) = SKSOperationModeProxy then [EnqueueCB pa (3 * Second)] else []))
             else ((1, True), [EnqueueCB pa (sw - af)]))
          else
            (case ksActivatorProbe ks pa of
               ((r, err), urls) \<Rightarrow>
                 let es = map ProberDo urls in
                 if r then
                   (if CanScaleToZero e pa now (ScaleToZeroGracePeriod cfgAS) then ((desiredScale, True), es)
                    else
                      let pf = ProxyFor e sks;
                          to = ScaleToZeroGracePeriod cfgAS - pf
                      in
                      if to \<le>s 0 then ((desiredScale, True), es)
                      else ((desiredScale, False), es @ [EnqueueCB pa to]))
                 else
                   ((desiredScale, False),
                    es @ [ProbeManagerOffer (paToProbeTarget e pa) pa probePeriod probeTimeout])))"

subsection \<open>Applying a scale\<close>

definition applyScale ::
  "externals \<Rightarrow> PodAutoscaler \<Rightarrow> int32 \<Rightarrow> PodScalable \<Rightarrow> error option \<times> effect list" where
  "applyScale e pa desiredScale ps =
     (case ScaleResourceArguments e (ScaleTargetRef (Spec pa)) of
        Inl err \<Rightarrow> (Some err, [])
      | Inr (gvr, name) \<Rightarrow>
          let psNew = ps\<lparr>psSpec := (psSpec ps)\<lparr>Replicas := Some desiredScale\<rparr>\<rparr> in
          (case CreatePatch e ps psNew of
             Inl err \<Rightarrow> (Some err, [])
           | Inr patch \<Rightarrow>
               (case MarshalJSON e patch of
                  Inl err \<Rightarrow> (Some err, [])
                | Inr patchBytes \<Rightarrow>
                    (case PatchResult e gvr (Namespace pa) (psName ps) patchBytes of
                       Some err \<Rightarrow>
                         (Some (FailedToApplyScale desiredScale name err),
                          [DynamicPatch gvr (Namespace pa) (psName ps) patchBytes])
                     | None \<Rightarrow>
                         (None, [DynamicPatch gvr (Namespace pa) (psName ps) patchBytes])))))"

subsection \<open>Top level\<close>

definition scale ::
  "externals \<Rightarrow> scaler \<Rightarrow> Config \<Rightarrow> PodAutoscaler \<Rightarrow> ServerlessService \<Rightarrow> int32
     \<Rightarrow> (int32 \<times> error option) \<times> effect list" where
  "scale e ks cfgs pa sks desiredScale =
     (if desiredScale <s 0 \<and> \<not> IsActivating (Status pa) then ((desiredScale, None), [])
      else
        case ScaleBounds e pa of
          (mn, mx) \<Rightarrow>
            let newScale = applyBounds mn mx desiredScale;
                desiredScale1 = (if newScale \<noteq> desiredScale then newScale else desiredScale)
            in
            (case handleScaleToZero e ks cfgs pa sks desiredScale1 of
               ((desiredScale2, shouldApplyScale), es) \<Rightarrow>
                 if \<not> shouldApplyScale then ((desiredScale2, None), es)
                 else
                   (case GetScaleResource e (Namespace pa) (ScaleTargetRef (Spec pa)) of
                      Inl err \<Rightarrow>
                        ((desiredScale2, Some (FailedToGetScaleTarget (ScaleTargetRef (Spec pa)) err)), es)
                    | Inr ps \<Rightarrow>
                        let currentScale = (case Replicas (psSpec ps) of None \<Rightarrow> 1 | Some n \<Rightarrow> n) in
                        if desiredScale2 = currentScale then ((desiredScale2, None), es)
                        else
                          (case applyScale e pa desiredScale2 ps of
                             (err, es') \<Rightarrow> ((desiredScale2, err), es @ es')))))"

subsection \<open>Example inputs\<close>

text \<open>
  The inputs of the spec's scenarios: grace period 30s, stable window 60s, progress
  deadline 600s.  \<open>testExternals\<close> is a cluster in which the PA has been active for 10s,
  the SKS has proxied for 5s, the activator answers the probe and the target runs 3
  replicas.
\<close>

definition testPA :: "ConditionStatus \<Rightarrow> PodAutoscaler" where
  "testPA st =
     \<lparr>Namespace = ''default'', Name = ''rev'',
      Spec = \<lparr>ScaleTargetRef = \<lparr>APIVersion = ''apps/v1'', Kind = ''Deployment'', RefName = ''rev-deployment''\<rparr>,
              ProtocolType = ''http1''\<rparr>,
      Status = \<lparr>ServiceName = ''rev-private'', Active = st\<rparr>\<rparr>"

definition testSKS :: "ServerlessServiceOperationMode \<Rightarrow> ServerlessService" where
  "testSKS m = \<lparr>sksName = ''rev'', sksSpec = \<lparr>Mode = m\<rparr>\<rparr>"

definition testConfig :: "bool \<Rightarrow> Config" where
  "testConfig enable =
     \<lparr>Autoscaler = \<lparr>EnableScaleToZero = enable, ScaleToZeroGracePeriod = 30 * Second\<rparr>,
      Deployment = \<lparr>ProgressDeadline = 600 * Second\<rparr>\<rparr>"

definition testExternals :: externals where
  "testExternals =
     \<lparr>Now = 0,
      CanFailActivation = (\<lambda>pa now d. False),
      ActiveFor = (\<lambda>pa now. 10 * Second),
      CanScaleToZero = (\<lambda>pa now d. False),
      ProxyFor = (\<lambda>sks. 5 * Second),
      StableWindow = (\<lambda>pa cfgAS. 60 * Second),
      ScaleBounds = (\<lambda>pa. (0, 10)),
      GetServiceHostname = (\<lambda>name ns. name @ ''.'' @ ns),
      ServicePort = (\<lambda>proto. 80),
      proberDo = (\<lambda>target. (True, None)),
      GetScaleResource = (\<lambda>ns ref. Inr \<lparr>psName = RefName ref, psSpec = \<lparr>Replicas = Some 3\<rparr>\<rparr>),
      ScaleResourceArguments = (\<lambda>ref. Inr (''deployments'', RefName ref)),
      CreatePatch = (\<lambda>ps psNew. Inr ''patch''),
      MarshalJSON = (\<lambda>patch. Inr patch),
      PatchResult = (\<lambda>gvr ns name bytes. None)\<rparr>"

definition testScaler :: "bool \<Rightarrow> scaler" where
  "testScaler present =
     \<lparr>ksActivatorProbe = (\<lambda>pa. ((present, None), [''http://activator/healthz'']))\<rparr>"

section \<open>Properties\<close>

subsection \<open>Bounds clamp\<close>

text \<open>
  C8.  For all \<open>int32\<close> values \<open>mn\<close>, \<open>mx\<close>, \<open>x\<close> (the source's \<open>min\<close>, \<open>max\<close>, \<open>x\<close>)
  with \<open>0 \<le> mn\<close>, with \<open>mn \<le> mx\<close> when \<open>mx \<noteq> 0\<close>, and with \<open>0 \<le> x\<close>:
  \<open>applyBounds mn mx x\<close> is \<open>mn\<close> if \<open>x < mn\<close>, is \<open>mx\<close> if \<open>mx \<noteq> 0\<close> and \<open>x > mx\<close>, and
  is \<open>x\<close> otherwise.  Hence the result is at least \<open>mn\<close>, at most \<open>mx\<close> unless
  \<open>mx = 0\<close>, and clamping a second time changes nothing.
\<close>

theorem applyBounds_clamp:
  assumes "0 \<le>s mn" and "mx \<noteq> 0 \<longrightarrow> mn \<le>s mx" and "0 \<le>s x"
  shows "(x <s mn \<longrightarrow> applyBounds mn mx x = mn)
       \<and> (mx \<noteq> 0 \<and> mx <s x \<longrightarrow> applyBounds mn mx x = mx)
       \<and> (\<not> x <s mn \<and> \<not> (mx \<noteq> 0 \<and> mx <s x) \<longrightarrow> applyBounds mn mx x = x)
       \<and> mn \<le>s applyBounds mn mx x
       \<and> (mx \<noteq> 0 \<longrightarrow> applyBounds mn mx x \<le>s mx)
       \<and> applyBounds mn mx (applyBounds mn mx x) = applyBounds mn mx x"
  using assms by (auto simp: applyBounds_def)

theorem applyBounds_clamp_witness:
  "(0::int32) \<le>s 1 \<and> (10::int32) \<noteq> 0 \<and> (1::int32) \<le>s 10 \<and> (0::int32) \<le>s 15
   \<and> (10::int32) <s 15
   \<and> applyBounds 1 10 15 = 10
   \<and> (1::int32) \<le>s applyBounds 1 10 15
   \<and> applyBounds 1 10 15 \<le>s 10
   \<and> applyBounds 1 10 (applyBounds 1 10 15) = applyBounds 1 10 15
   \<and> (0::int32) \<le>s 0 \<and> (0::int32) <s 1
   \<and> applyBounds 1 10 0 = 1"
  using applyBounds_clamp [of 1 10 15] applyBounds_clamp [of 1 10 0]
  by (auto simp: word_sle_eq word_sless_alt)

subsection \<open>Synchronous probe\<close>

text \<open>
  C9.  For a PA whose \<open>Status.ServiceName\<close> is the empty string, \<open>activatorProbe\<close>
  returns \<open>(false, nil)\<close> and requests no URL; the production scaler of \<open>newScaler\<close>
  probes with this function.
\<close>

theorem activatorProbe_no_service:
  assumes "ServiceName (Status pa) = []"
  shows "activatorProbe e pa = ((False, None), [])
       \<and> ksActivatorProbe (newScaler e) pa = ((False, None), [])"
  using assms by (simp add: activatorProbe_def newScaler_def)

theorem activatorProbe_no_service_witness:
  "ServiceName (Status ((testPA ConditionFalse)\<lparr>Status := \<lparr>ServiceName = [], Active = ConditionFalse\<rparr>\<rparr>)) = []
   \<and> activatorProbe testExternals
        ((testPA ConditionFalse)\<lparr>Status := \<lparr>ServiceName = [], Active = ConditionFalse\<rparr>\<rparr>)
      = ((False, None), [])"
  using activatorProbe_no_service
          [of "(testPA ConditionFalse)\<lparr>Status := \<lparr>ServiceName = [], Active = ConditionFalse\<rparr>\<rparr>"
              testExternals]
  by simp

subsection \<open>The scale-to-zero decision\<close>

text \<open>
  C6.  With \<open>EnableScaleToZero\<close> off, \<open>handleScaleToZero\<close> never returns the scale 0,
  whatever the desired scale; for the desired scale 0 it returns \<open>(1, true)\<close> and calls
  nothing.
\<close>

theorem handleScaleToZero_zero_gating:
  assumes "\<not> EnableScaleToZero (Autoscaler cfgs)"
  shows "fst (fst (handleScaleToZero e ks cfgs pa sks d)) \<noteq> 0
       \<and> handleScaleToZero e ks cfgs pa sks 0 = ((1, True), [])"
  using assms by (simp add: handleScaleToZero_def)

theorem handleScaleToZero_zero_gating_witness:
  "\<not> EnableScaleToZero (Autoscaler (testConfig False))
   \<and> handleScaleToZero testExternals (testScaler True) (testConfig False) (testPA ConditionFalse)
        (testSKS SKSOperationModeProxy) 0 = ((1, True), [])
   \<and> fst (fst (handleScaleToZero testExternals (testScaler True) (testConfig False)
        (testPA ConditionFalse) (testSKS SKSOperationModeProxy) 7)) \<noteq> 0"
  using handleScaleToZero_zero_gating [of "testConfig False" testExternals "testScaler True"
          "testPA ConditionFalse" "testSKS SKSOperationModeProxy" 7]
  by (simp add: testConfig_def)

text \<open>
  C4.  Desired scale 0, scale to zero enabled, PA activating (\<open>Active=Unknown\<close>).  The
  activation timeout is the progress deadline plus 10s.  If \<open>CanFailActivation\<close> holds
  for it the result is \<open>(0, true)\<close> with no call; otherwise the PA is enqueued after the
  activation timeout and the result is \<open>(-1, false)\<close>.
\<close>

theorem handleScaleToZero_activating:
  assumes "EnableScaleToZero (Autoscaler cfgs)" and "Active (Status pa) = ConditionUnknown"
  shows "handleScaleToZero e ks cfgs pa sks 0 =
           (if CanFailActivation e pa (Now e) (ProgressDeadline (Deployment cfgs) + 10 * Second)
            then ((0, True), [])
            else ((- 1, False), [EnqueueCB pa (ProgressDeadline (Deployment cfgs) + 10 * Second)]))"
  using assms
  by (simp add: handleScaleToZero_def IsActivating_def activationTimeoutBuffer_def scaleUnknown_def)

theorem handleScaleToZero_activating_witness:
  "EnableScaleToZero (Autoscaler (testConfig True))
   \<and> Active (Status (testPA ConditionUnknown)) = ConditionUnknown
   \<and> handleScaleToZero testExternals (testScaler False) (testConfig True) (testPA ConditionUnknown)
        (testSKS SKSOperationModeServe) 0
      = ((- 1, False), [EnqueueCB (testPA ConditionUnknown) (610 * Second)])
   \<and> handleScaleToZero (testExternals\<lparr>CanFailActivation := (\<lambda>pa now d. 610 * Second \<le>s d)\<rparr>)
        (testScaler False) (testConfig True) (testPA ConditionUnknown) (testSKS SKSOperationModeServe) 0
      = ((0, True), [])"
  using handleScaleToZero_activating [of "testConfig True" "testPA ConditionUnknown" testExternals
          "testScaler False" "testSKS SKSOperationModeServe"]
        handleScaleToZero_activating [of "testConfig True" "testPA ConditionUnknown"
          "testExternals\<lparr>CanFailActivation := (\<lambda>pa now d. 610 * Second \<le>s d)\<rparr>"
          "testScaler False" "testSKS SKSOperationModeServe"]
  by (simp add: testConfig_def testPA_def testExternals_def Second_def)

text \<open>
  C3.  Desired scale 0, scale to zero enabled, PA active (\<open>Active=True\<close>).  Once the PA
  has been active for the stable window the result is \<open>(0, false)\<close>, and the PA is
  enqueued after 3s exactly when the SKS is in proxy mode (no call otherwise).  Before
  that, the PA is enqueued after the rest of the window and the result is \<open>(1, true)\<close>.
\<close>

theorem handleScaleToZero_active:
  assumes "EnableScaleToZero (Autoscaler cfgs)" and "Active (Status pa) = ConditionTrue"
  shows "handleScaleToZero e ks cfgs pa sks 0 =
           (if StableWindow e pa (Autoscaler cfgs) \<le>s ActiveFor e pa (Now e)
            then ((0, False),
                  if Mode (sksSpec sks) = SKSOperationModeProxy then [EnqueueCB pa (3 * Second)] else [])
            else ((1, True),
                  [EnqueueCB pa (StableWindow e pa (Autoscaler cfgs) - ActiveFor e pa (Now e))]))"
  using assms
  by (simp add: handleScaleToZero_def IsActivating_def IsReady_def Let_def)

theorem handleScaleToZero_active_witness:
  "EnableScaleToZero (Autoscaler (testConfig True))
   \<and> Active (Status (testPA ConditionTrue)) = ConditionTrue
   \<and> handleScaleToZero testExternals (testScaler False) (testConfig True) (testPA ConditionTrue)
        (testSKS SKSOperationModeProxy) 0
      = ((1, True), [EnqueueCB (testPA ConditionTrue) (50 * Second)])
   \<and> handleScaleToZero (testExternals\<lparr>ActiveFor := (\<lambda>pa now. 120 * Second)\<rparr>)
        (testScaler False) (testConfig True) (testPA ConditionTrue) (testSKS SKSOperationModeProxy) 0
      = ((0, False), [EnqueueCB (testPA ConditionTrue) (3 * Second)])"
  using handleScaleToZero_active [of "testConfig True" "testPA ConditionTrue" testExternals
          "testScaler False" "testSKS SKSOperationModeProxy"]
        handleScaleToZero_active [of "testConfig True" "testPA ConditionTrue"
          "testExternals\<lparr>ActiveFor := (\<lambda>pa now. 120 * Second)\<rparr>"
          "testScaler False" "testSKS SKSOperationModeProxy"]
  by (simp add: testConfig_def testPA_def testExternals_def testSKS_def Second_def)

text \<open>
  C2.  Desired scale 0, scale to zero enabled, PA inactive (\<open>Active=False\<close>), and the
  synchronous probe answers \<open>true\<close>.  If \<open>CanScaleToZero\<close> holds for the grace period
  the result is \<open>(0, true)\<close>.  Otherwise let \<open>to\<close> be the grace period minus the time
  the SKS has proxied: for \<open>to \<le> 0\<close> the result is \<open>(0, true)\<close>; for \<open>to > 0\<close> the PA is
  enqueued after \<open>to\<close> and the result is \<open>(0, false)\<close>.  The only other calls are the
  requests of the probe.
\<close>

theorem handleScaleToZero_inactive_present:
  assumes "EnableScaleToZero (Autoscaler cfgs)" and "Active (Status pa) = ConditionFalse"
      and "ksActivatorProbe ks pa = ((True, perr), urls)"
  shows "handleScaleToZero e ks cfgs pa sks 0 =
           (if CanScaleToZero e pa (Now e) (ScaleToZeroGracePeriod (Autoscaler cfgs))
            then ((0, True), map ProberDo urls)
            else if ScaleToZeroGracePeriod (Autoscaler cfgs) - ProxyFor e sks \<le>s 0
            then ((0, True), map ProberDo urls)
            else ((0, False),
                  map ProberDo urls
                  @ [EnqueueCB pa (ScaleToZeroGracePeriod (Autoscaler cfgs) - ProxyFor e sks)]))"
  using assms
  by (simp add: handleScaleToZero_def IsActivating_def IsReady_def Let_def)

theorem handleScaleToZero_inactive_present_witness:
  "EnableScaleToZero (Autoscaler (testConfig True))
   \<and> Active (Status (testPA ConditionFalse)) = ConditionFalse
   \<and> ksActivatorProbe (testScaler True) (testPA ConditionFalse)
       = ((True, None), [''http://activator/healthz''])
   \<and> handleScaleToZero testExternals (testScaler True) (testConfig True) (testPA ConditionFalse)
        (testSKS SKSOperationModeProxy) 0
      = ((0, False),
         [ProberDo ''http://activator/healthz'', EnqueueCB (testPA ConditionFalse) (25 * Second)])
   \<and> handleScaleToZero (testExternals\<lparr>ProxyFor := (\<lambda>sks. 31 * Second)\<rparr>) (testScaler True)
        (testConfig True) (testPA ConditionFalse) (testSKS SKSOperationModeProxy) 0
      = ((0, True), [ProberDo ''http://activator/healthz''])
   \<and> handleScaleToZero (testExternals\<lparr>CanScaleToZero := (\<lambda>pa now d. True)\<rparr>) (testScaler True)
        (testConfig True) (testPA ConditionFalse) (testSKS SKSOperationModeProxy) 0
      = ((0, True), [ProberDo ''http://activator/healthz''])"
  using handleScaleToZero_inactive_present [of "testConfig True" "testPA ConditionFalse"
          "testScaler True" None "[''http://activator/healthz'']" testExternals
          "testSKS SKSOperationModeProxy"]
        handleScaleToZero_inactive_present [of "testConfig True" "testPA ConditionFalse"
          "testScaler True" None "[''http://activator/healthz'']"
          "testExternals\<lparr>ProxyFor := (\<lambda>sks. 31 * Second)\<rparr>" "testSKS SKSOperationModeProxy"]
        handleScaleToZero_inactive_present [of "testConfig True" "testPA ConditionFalse"
          "testScaler True" None "[''http://activator/healthz'']"
          "testExternals\<lparr>CanScaleToZero := (\<lambda>pa now d. True)\<rparr>" "testSKS SKSOperationModeProxy"]
  by (simp add: testConfig_def testPA_def testExternals_def testScaler_def Second_def
        word_sle_eq)

subsection \<open>Facts about the calls of \<open>scale\<close>\<close>

lemma handleScaleToZero_no_patch:
  "DynamicPatch g ns n b \<notin> set (snd (handleScaleToZero e ks cfgs pa sks x))"
  by (auto simp: handleScaleToZero_def Let_def split: prod.splits)

lemma handleScaleToZero_applied_value:
  assumes "handleScaleToZero e ks cfgs pa sks x = ((r, True), es)"
  shows "r = x \<or> (x = 0 \<and> r = 1)"
  using assms
  by (auto simp: handleScaleToZero_def Let_def split: prod.splits if_splits)

lemma applyScale_patch:
  assumes "DynamicPatch g ns n b \<in> set (snd (applyScale e pa r ps))"
  shows "\<exists>p. CreatePatch e ps (ps\<lparr>psSpec := (psSpec ps)\<lparr>Replicas := Some r\<rparr>\<rparr>) = Inr p
             \<and> MarshalJSON e p = Inr b \<and> ns = Namespace pa \<and> n = psName ps"
  using assms
  by (auto simp: applyScale_def Let_def split: sum.splits prod.splits option.splits)

lemma adjust_desiredScale: "(if n \<noteq> d then n else d) = n"
  by simp

lemma scale_alt:
  "scale e ks cfgs pa sks d =
     (if d <s 0 \<and> \<not> IsActivating (Status pa) then ((d, None), [])
      else
        case handleScaleToZero e ks cfgs pa sks
               (applyBounds (fst (ScaleBounds e pa)) (snd (ScaleBounds e pa)) d) of
          ((r, ap), es) \<Rightarrow>
            if \<not> ap then ((r, None), es)
            else
              (case GetScaleResource e (Namespace pa) (ScaleTargetRef (Spec pa)) of
                 Inl err \<Rightarrow> ((r, Some (FailedToGetScaleTarget (ScaleTargetRef (Spec pa)) err)), es)
               | Inr ps \<Rightarrow>
                   if r = (case Replicas (psSpec ps) of None \<Rightarrow> 1 | Some k \<Rightarrow> k) then ((r, None), es)
                   else ((r, fst (applyScale e pa r ps)), es @ snd (applyScale e pa r ps))))"
  unfolding scale_def Let_def adjust_desiredScale
  by (simp add: case_prod_beta split: sum.splits)

lemma scale_patch:
  assumes "scale e ks cfgs pa sks d = ((r, err), es)"
      and "DynamicPatch g ns n b \<in> set es"
      and "ScaleBounds e pa = (mn, mx)"
  shows "\<not> (d <s 0 \<and> \<not> IsActivating (Status pa))
       \<and> (\<exists>es0. handleScaleToZero e ks cfgs pa sks (applyBounds mn mx d) = ((r, True), es0))
       \<and> (\<exists>ps. GetScaleResource e (Namespace pa) (ScaleTargetRef (Spec pa)) = Inr ps
               \<and> r \<noteq> (case Replicas (psSpec ps) of None \<Rightarrow> 1 | Some k \<Rightarrow> k)
               \<and> DynamicPatch g ns n b \<in> set (snd (applyScale e pa r ps)))"
proof -
  obtain r0 ap es0 where h: "handleScaleToZero e ks cfgs pa sks (applyBounds mn mx d) = ((r0, ap), es0)"
    by (metis prod.exhaust)
  have np: "DynamicPatch g ns n b \<notin> set es0"
    using handleScaleToZero_no_patch [of g ns n b e ks cfgs pa sks "applyBounds mn mx d"] h by simp
  show ?thesis
    using assms h np
    by (auto simp: scale_alt split: if_splits sum.splits)
qed

text \<open>
  C5.  Desired scale 0, scale to zero enabled, PA inactive, and the synchronous probe
  answers \<open>false\<close>, with or without an error.  Then \<open>handleScaleToZero\<close> offers the PA's
  probe target to the probe manager with period 1s and timeout 45s and returns
  \<open>(0, false)\<close>.  In \<open>scale\<close>, whenever the clamped desired scale is 0, this path ends
  with the scale 0, the error \<open>nil\<close> and no PATCH.
\<close>

theorem handleScaleToZero_inactive_absent:
  assumes "EnableScaleToZero (Autoscaler cfgs)" and "Active (Status pa) = ConditionFalse"
      and "ksActivatorProbe ks pa = ((False, perr), urls)"
  shows "handleScaleToZero e ks cfgs pa sks 0 =
           ((0, False),
            map ProberDo urls
            @ [ProbeManagerOffer (paToProbeTarget e pa) pa (1 * Second) (45 * Second)])
       \<and> (\<not> d <s 0 \<and> applyBounds (fst (ScaleBounds e pa)) (snd (ScaleBounds e pa)) d = 0 \<longrightarrow>
            scale e ks cfgs pa sks d =
              ((0, None),
               map ProberDo urls
               @ [ProbeManagerOffer (paToProbeTarget e pa) pa (1 * Second) (45 * Second)]))"
proof -
  have h: "handleScaleToZero e ks cfgs pa sks 0 =
           ((0, False),
            map ProberDo urls
            @ [ProbeManagerOffer (paToProbeTarget e pa) pa (1 * Second) (45 * Second)])"
    using assms
    by (simp add: handleScaleToZero_def IsActivating_def IsReady_def probePeriod_def probeTimeout_def)
  have "scale e ks cfgs pa sks d =
              ((0, None),
               map ProberDo urls
               @ [ProbeManagerOffer (paToProbeTarget e pa) pa (1 * Second) (45 * Second)])"
    if "\<not> d <s 0" and "applyBounds (fst (ScaleBounds e pa)) (snd (ScaleBounds e pa)) d = 0"
    using that h assms(2) by (simp add: scale_alt IsActivating_def)
  with h show ?thesis by blast
qed

theorem handleScaleToZero_inactive_absent_witness:
  "EnableScaleToZero (Autoscaler (testConfig True))
   \<and> Active (Status (testPA ConditionFalse)) = ConditionFalse
   \<and> ksActivatorProbe (testScaler False) (testPA ConditionFalse)
       = ((False, None), [''http://activator/healthz''])
   \<and> \<not> (0 :: int32) <s 0
   \<and> applyBounds (fst (ScaleBounds testExternals (testPA ConditionFalse)))
        (snd (ScaleBounds testExternals (testPA ConditionFalse))) 0 = 0
   \<and> handleScaleToZero testExternals (testScaler False) (testConfig True) (testPA ConditionFalse)
        (testSKS SKSOperationModeProxy) 0
      = ((0, False),
         [ProberDo ''http://activator/healthz'',
          ProbeManagerOffer ''http://rev-private.default:80/healthz'' (testPA ConditionFalse)
            (1 * Second) (45 * Second)])
   \<and> scale testExternals (testScaler False) (testConfig True) (testPA ConditionFalse)
        (testSKS SKSOperationModeProxy) 0
      = ((0, None),
         [ProberDo ''http://activator/healthz'',
          ProbeManagerOffer ''http://rev-private.default:80/healthz'' (testPA ConditionFalse)
            (1 * Second) (45 * Second)])"
  using handleScaleToZero_inactive_absent [where cfgs = "testConfig True"
          and pa = "testPA ConditionFalse" and ks = "testScaler False" and perr = None
          and urls = "[''http://activator/healthz'']" and d = 0 and e = testExternals
          and sks = "testSKS SKSOperationModeProxy"]
  by (simp add: testConfig_def testPA_def testExternals_def testScaler_def applyBounds_def
        paToProbeTarget_def formatInt_def digits.simps word_sless_alt)

text \<open>
  C1.  Re-enqueue completeness, as claimed: with desired scale 0 and scale to zero
  enabled, every invocation of \<open>handleScaleToZero\<close> that returns \<open>shouldApply = false\<close>
  calls \<open>enqueueCB\<close> or offers the PA's probe target to the probe manager.  This fails
  for an active PA past its stable window whose SKS is in serve mode: the result is
  \<open>(0, false)\<close> and nothing is called.  The source says why: the SKS reconciler will
  change the mode, and the PA is reconciled again when it has.
\<close>

theorem handleScaleToZero_reenqueue_counterexample:
  "EnableScaleToZero (Autoscaler (testConfig True))
   \<and> handleScaleToZero (testExternals\<lparr>ActiveFor := (\<lambda>pa now. 120 * Second)\<rparr>) (testScaler True)
        (testConfig True) (testPA ConditionTrue) (testSKS SKSOperationModeServe) 0
      = ((0, False), [])"
  by (simp add: handleScaleToZero_def testConfig_def testPA_def testExternals_def testSKS_def
        IsActivating_def IsReady_def Second_def word_sle_eq)

text \<open>
  C1, amended.  With desired scale 0 and scale to zero enabled, every invocation of
  \<open>handleScaleToZero\<close> that returns \<open>shouldApply = false\<close> calls \<open>enqueueCB\<close> for the PA
  with some delay, or offers the PA's probe target to the probe manager, or is the one
  case above: PA active for at least the stable window, SKS in serve mode, result
  \<open>(0, false)\<close>, no call.  The callback that \<open>newScaler\<close> gives the probe manager
  re-enqueues its argument after 1s whatever the probe's outcome.
\<close>

theorem handleScaleToZero_reenqueue:
  assumes "EnableScaleToZero (Autoscaler cfgs)"
      and "handleScaleToZero e ks cfgs pa sks 0 = ((r, False), es)"
  shows "((\<exists>delay. EnqueueCB pa delay \<in> set es)
          \<or> ProbeManagerOffer (paToProbeTarget e pa) pa probePeriod probeTimeout \<in> set es
          \<or> (Active (Status pa) = ConditionTrue
              \<and> StableWindow e pa (Autoscaler cfgs) \<le>s ActiveFor e pa (Now e)
              \<and> Mode (sksSpec sks) = SKSOperationModeServe
              \<and> r = 0 \<and> es = []))
       \<and> newScaler_done pa success err = [EnqueueCB pa (1 * Second)]"
proof -
  have cb: "newScaler_done pa success err = [EnqueueCB pa (1 * Second)]"
    by (simp add: newScaler_done_def reenqeuePeriod_def)
  have "(\<exists>delay. EnqueueCB pa delay \<in> set es)
          \<or> ProbeManagerOffer (paToProbeTarget e pa) pa probePeriod probeTimeout \<in> set es
          \<or> (Active (Status pa) = ConditionTrue
              \<and> StableWindow e pa (Autoscaler cfgs) \<le>s ActiveFor e pa (Now e)
              \<and> Mode (sksSpec sks) = SKSOperationModeServe
              \<and> r = 0 \<and> es = [])"
  proof (cases "Active (Status pa)")
    case ConditionTrue
    with assms show ?thesis
      by (cases "Mode (sksSpec sks)")
         (auto simp: handleScaleToZero_def IsActivating_def IsReady_def Let_def split: if_splits)
  next
    case ConditionFalse
    with assms show ?thesis
      by (auto simp: handleScaleToZero_def IsActivating_def IsReady_def Let_def
               split: if_splits prod.splits)
  next
    case ConditionUnknown
    with assms show ?thesis
      by (auto simp: handleScaleToZero_def IsActivating_def Let_def split: if_splits)
  qed
  with cb show ?thesis by simp
qed

theorem handleScaleToZero_reenqueue_witness:
  "EnableScaleToZero (Autoscaler (testConfig True))
   \<and> handleScaleToZero testExternals (testScaler False) (testConfig True) (testPA ConditionFalse)
        (testSKS SKSOperationModeProxy) 0
      = ((0, False),
         [ProberDo ''http://activator/healthz'',
          ProbeManagerOffer (paToProbeTarget testExternals (testPA ConditionFalse))
            (testPA ConditionFalse) probePeriod probeTimeout])
   \<and> ProbeManagerOffer (paToProbeTarget testExternals (testPA ConditionFalse))
        (testPA ConditionFalse) probePeriod probeTimeout
      \<in> set [ProberDo ''http://activator/healthz'',
          ProbeManagerOffer (paToProbeTarget testExternals (testPA ConditionFalse))
            (testPA ConditionFalse) probePeriod probeTimeout]
   \<and> newScaler_done (testPA ConditionFalse) False None
      = [EnqueueCB (testPA ConditionFalse) (1 * Second)]"
proof -
  have h: "handleScaleToZero testExternals (testScaler False) (testConfig True) (testPA ConditionFalse)
        (testSKS SKSOperationModeProxy) 0
      = ((0, False),
         [ProberDo ''http://activator/healthz'',
          ProbeManagerOffer (paToProbeTarget testExternals (testPA ConditionFalse))
            (testPA ConditionFalse) probePeriod probeTimeout])"
    by (simp add: handleScaleToZero_def testConfig_def testPA_def testScaler_def
          IsActivating_def IsReady_def)
  have en: "EnableScaleToZero (Autoscaler (testConfig True))"
    by (simp add: testConfig_def)
  show ?thesis
    using handleScaleToZero_reenqueue [OF en h, of False None] en h by simp
qed

subsection \<open>Top level\<close>

text \<open>
  C7.  Patch gating.  Let \<open>(r', shouldApply)\<close> be what \<open>handleScaleToZero\<close> returns for
  the clamped desired scale.  If \<open>scale\<close> sends a PATCH, then the early return was not
  taken, \<open>shouldApply\<close> is true, and the scale resource was found with a current scale
  (\<open>spec.replicas\<close>, or 1 when absent) different from \<open>r'\<close>.  On the early return
  \<open>scale\<close> returns its argument and calls nothing.  In every other case \<open>scale\<close>
  returns \<open>r'\<close>, its calls are those of \<open>handleScaleToZero\<close>, and no PATCH is sent.
\<close>

theorem scale_patch_gating:
  assumes "scale e ks cfgs pa sks d = ((r, err), es)"
      and "ScaleBounds e pa = (mn, mx)"
      and "handleScaleToZero e ks cfgs pa sks (applyBounds mn mx d) = ((r', shouldApply), es')"
  shows "((\<exists>g ns n b. DynamicPatch g ns n b \<in> set es) \<longrightarrow>
            \<not> (d <s 0 \<and> \<not> IsActivating (Status pa)) \<and> shouldApply \<and> r = r'
            \<and> (\<exists>ps. GetScaleResource e (Namespace pa) (ScaleTargetRef (Spec pa)) = Inr ps
                     \<and> r' \<noteq> (case Replicas (psSpec ps) of None \<Rightarrow> 1 | Some k \<Rightarrow> k)))
       \<and> ((d <s 0 \<and> \<not> IsActivating (Status pa)) \<longrightarrow> r = d \<and> err = None \<and> es = [])
       \<and> (\<not> (d <s 0 \<and> \<not> IsActivating (Status pa))
            \<and> \<not> (shouldApply
                   \<and> (\<exists>ps. GetScaleResource e (Namespace pa) (ScaleTargetRef (Spec pa)) = Inr ps
                           \<and> r' \<noteq> (case Replicas (psSpec ps) of None \<Rightarrow> 1 | Some k \<Rightarrow> k)))
            \<longrightarrow> r = r' \<and> es = es' \<and> (\<forall>g ns n b. DynamicPatch g ns n b \<notin> set es))"
proof -
  have np: "DynamicPatch g ns n b \<notin> set es'" for g ns n b
    using handleScaleToZero_no_patch [of g ns n b e ks cfgs pa sks "applyBounds mn mx d"] assms(3)
    by simp
  have a: "(\<exists>g ns n b. DynamicPatch g ns n b \<in> set es) \<longrightarrow>
            \<not> (d <s 0 \<and> \<not> IsActivating (Status pa)) \<and> shouldApply \<and> r = r'
            \<and> (\<exists>ps. GetScaleResource e (Namespace pa) (ScaleTargetRef (Spec pa)) = Inr ps
                     \<and> r' \<noteq> (case Replicas (psSpec ps) of None \<Rightarrow> 1 | Some k \<Rightarrow> k))"
    using scale_patch [OF assms(1) _ assms(2)] assms(3) by fastforce
  have b: "(d <s 0 \<and> \<not> IsActivating (Status pa)) \<longrightarrow> r = d \<and> err = None \<and> es = []"
    using assms(1) by (auto simp: scale_alt)
  have c: "\<not> (d <s 0 \<and> \<not> IsActivating (Status pa))
            \<and> \<not> (shouldApply
                   \<and> (\<exists>ps. GetScaleResource e (Namespace pa) (ScaleTargetRef (Spec pa)) = Inr ps
                           \<and> r' \<noteq> (case Replicas (psSpec ps) of None \<Rightarrow> 1 | Some k \<Rightarrow> k)))
            \<longrightarrow> r = r' \<and> es = es' \<and> (\<forall>g ns n b. DynamicPatch g ns n b \<notin> set es)"
    using assms np by (auto simp: scale_alt split: if_splits sum.splits)
  from a b c show ?thesis by blast
qed


theorem scale_patch_gating_witness:
  "scale testExternals (testScaler True) (testConfig True) (testPA ConditionTrue)
      (testSKS SKSOperationModeServe) 5
     = ((5, None), [DynamicPatch ''deployments'' ''default'' ''rev-deployment'' ''patch''])
   \<and> ScaleBounds testExternals (testPA ConditionTrue) = (0, 10)
   \<and> handleScaleToZero testExternals (testScaler True) (testConfig True) (testPA ConditionTrue)
        (testSKS SKSOperationModeServe) (applyBounds 0 10 5) = ((5, True), [])
   \<and> (\<exists>ps. GetScaleResource testExternals (Namespace (testPA ConditionTrue))
               (ScaleTargetRef (Spec (testPA ConditionTrue))) = Inr ps
            \<and> 5 \<noteq> (case Replicas (psSpec ps) of None \<Rightarrow> 1 | Some k \<Rightarrow> k))"
proof -
  have s: "scale testExternals (testScaler True) (testConfig True) (testPA ConditionTrue)
      (testSKS SKSOperationModeServe) 5
     = ((5, None), [DynamicPatch ''deployments'' ''default'' ''rev-deployment'' ''patch''])"
    by (simp add: scale_def handleScaleToZero_def applyScale_def applyBounds_def testExternals_def
          testPA_def word_sless_alt)
  have b: "ScaleBounds testExternals (testPA ConditionTrue) = (0, 10)"
    by (simp add: testExternals_def)
  have h: "handleScaleToZero testExternals (testScaler True) (testConfig True) (testPA ConditionTrue)
        (testSKS SKSOperationModeServe) (applyBounds 0 10 5) = ((5, True), [])"
    by (simp add: handleScaleToZero_def applyBounds_def word_sless_alt)
  show ?thesis
    using scale_patch_gating [OF s b h] s b h by simp
qed

text \<open>
  C10.  \<open>applyBounds\<close> returns \<open>mn\<close> whenever \<open>x < mn\<close>, for all \<open>int32\<close> inputs, with
  no precondition.  Hence in \<open>scale\<close>, for a negative desired scale and an activating PA
  whose lower bound is not negative, the clamped value is the lower bound, and it is
  the lower bound that \<open>scale\<close> passes to \<open>handleScaleToZero\<close>: \<open>scale\<close> returns what
  that call decides and makes its calls, then, if told to apply, looks up the scale
  resource and patches it when the current scale differs.  Every PATCH that \<open>scale\<close>
  sends carries the scale it returns, which is not negative.
\<close>

theorem scale_negative_desired:
  "(x <s mn \<longrightarrow> applyBounds mn mx x = mn)
   \<and> (d <s 0 \<and> Active (Status pa) = ConditionUnknown \<and> ScaleBounds e pa = (mn, mx) \<and> 0 \<le>s mn \<longrightarrow>
        applyBounds mn mx d = mn
        \<and> 0 \<le>s applyBounds mn mx d
        \<and> scale e ks cfgs pa sks d =
            (case handleScaleToZero e ks cfgs pa sks mn of
               ((r, shouldApply), es) \<Rightarrow>
                 if \<not> shouldApply then ((r, None), es)
                 else
                   (case GetScaleResource e (Namespace pa) (ScaleTargetRef (Spec pa)) of
                      Inl err \<Rightarrow>
                        ((r, Some (FailedToGetScaleTarget (ScaleTargetRef (Spec pa)) err)), es)
                    | Inr ps \<Rightarrow>
                        if r = (case Replicas (psSpec ps) of None \<Rightarrow> 1 | Some k \<Rightarrow> k)
                        then ((r, None), es)
                        else ((r, fst (applyScale e pa r ps)), es @ snd (applyScale e pa r ps))))
        \<and> (\<forall>g ns n b. DynamicPatch g ns n b \<in> set (snd (scale e ks cfgs pa sks d)) \<longrightarrow>
              0 \<le>s fst (fst (scale e ks cfgs pa sks d))
              \<and> (\<exists>ps p. GetScaleResource e (Namespace pa) (ScaleTargetRef (Spec pa)) = Inr ps
                    \<and> CreatePatch e ps
                         (ps\<lparr>psSpec := (psSpec ps)\<lparr>Replicas := Some (fst (fst (scale e ks cfgs pa sks d)))\<rparr>\<rparr>)
                       = Inr p
                    \<and> MarshalJSON e p = Inr b)))"
proof -
  have a: "x <s mn \<longrightarrow> applyBounds mn mx x = mn"
    by (simp add: applyBounds_def)
  have b: "applyBounds mn mx d = mn \<and> 0 \<le>s applyBounds mn mx d
        \<and> scale e ks cfgs pa sks d =
            (case handleScaleToZero e ks cfgs pa sks mn of
               ((r, shouldApply), es) \<Rightarrow>
                 if \<not> shouldApply then ((r, None), es)
                 else
                   (case GetScaleResource e (Namespace pa) (ScaleTargetRef (Spec pa)) of
                      Inl err \<Rightarrow>
                        ((r, Some (FailedToGetScaleTarget (ScaleTargetRef (Spec pa)) err)), es)
                    | Inr ps \<Rightarrow>
                        if r = (case Replicas (psSpec ps) of None \<Rightarrow> 1 | Some k \<Rightarrow> k)
                        then ((r, None), es)
                        else ((r, fst (applyScale e pa r ps)), es @ snd (applyScale e pa r ps))))
        \<and> (\<forall>g ns n b. DynamicPatch g ns n b \<in> set (snd (scale e ks cfgs pa sks d)) \<longrightarrow>
              0 \<le>s fst (fst (scale e ks cfgs pa sks d))
              \<and> (\<exists>ps p. GetScaleResource e (Namespace pa) (ScaleTargetRef (Spec pa)) = Inr ps
                    \<and> CreatePatch e ps
                         (ps\<lparr>psSpec := (psSpec ps)\<lparr>Replicas := Some (fst (fst (scale e ks cfgs pa sks d)))\<rparr>\<rparr>)
                       = Inr p
                    \<and> MarshalJSON e p = Inr b))"
    if neg: "d <s 0" and act: "Active (Status pa) = ConditionUnknown"
      and sb: "ScaleBounds e pa = (mn, mx)" and mn0: "0 \<le>s mn"
  proof -
    have lt: "d <s mn"
      using neg mn0 by (simp add: word_sless_alt word_sle_eq)
    then have clamp: "applyBounds mn mx d = mn"
      by (simp add: applyBounds_def)
    have passed: "scale e ks cfgs pa sks d =
            (case handleScaleToZero e ks cfgs pa sks mn of
               ((r, shouldApply), es) \<Rightarrow>
                 if \<not> shouldApply then ((r, None), es)
                 else
                   (case GetScaleResource e (Namespace pa) (ScaleTargetRef (Spec pa)) of
                      Inl err \<Rightarrow>
                        ((r, Some (FailedToGetScaleTarget (ScaleTargetRef (Spec pa)) err)), es)
                    | Inr ps \<Rightarrow>
                        if r = (case Replicas (psSpec ps) of None \<Rightarrow> 1 | Some k \<Rightarrow> k)
                        then ((r, None), es)
                        else ((r, fst (applyScale e pa r ps)), es @ snd (applyScale e pa r ps))))"
      using act sb clamp by (simp add: scale_alt IsActivating_def)
    have patch: "0 \<le>s fst (fst (scale e ks cfgs pa sks d))
              \<and> (\<exists>ps p. GetScaleResource e (Namespace pa) (ScaleTargetRef (Spec pa)) = Inr ps
                    \<and> CreatePatch e ps
                         (ps\<lparr>psSpec := (psSpec ps)\<lparr>Replicas := Some (fst (fst (scale e ks cfgs pa sks d)))\<rparr>\<rparr>)
                       = Inr p
                    \<and> MarshalJSON e p = Inr b)"
      if p: "DynamicPatch g ns n b \<in> set (snd (scale e ks cfgs pa sks d))" for g ns n b
    proof -
      obtain r err es where s: "scale e ks cfgs pa sks d = ((r, err), es)"
        by (metis prod.exhaust)
      with p have p': "DynamicPatch g ns n b \<in> set es" by simp
      from scale_patch [OF s p' sb] obtain es0 ps where
        h: "handleScaleToZero e ks cfgs pa sks (applyBounds mn mx d) = ((r, True), es0)"
        and g: "GetScaleResource e (Namespace pa) (ScaleTargetRef (Spec pa)) = Inr ps"
        and ap: "DynamicPatch g ns n b \<in> set (snd (applyScale e pa r ps))"
        by blast
      from handleScaleToZero_applied_value [OF h] clamp have "r = mn \<or> r = 1" by auto
      with mn0 have r0: "0 \<le>s r" by (auto simp: word_sle_eq)
      from applyScale_patch [OF ap] g r0 s show ?thesis by auto
    qed
    from clamp mn0 passed patch show ?thesis by simp
  qed
  from a b show ?thesis by blast
qed

theorem scale_negative_desired_witness:
  "(- 1 :: int32) <s 2
   \<and> (- 1 :: int32) <s 0
   \<and> Active (Status (testPA ConditionUnknown)) = ConditionUnknown
   \<and> ScaleBounds (testExternals\<lparr>ScaleBounds := (\<lambda>pa. (2, 10))\<rparr>) (testPA ConditionUnknown) = (2, 10)
   \<and> (0 :: int32) \<le>s 2
   \<and> applyBounds 2 10 (- 1) = 2
   \<and> handleScaleToZero (testExternals\<lparr>ScaleBounds := (\<lambda>pa. (2, 10))\<rparr>) (testScaler True)
        (testConfig True) (testPA ConditionUnknown) (testSKS SKSOperationModeServe) 2
      = ((2, True), [])
   \<and> scale (testExternals\<lparr>ScaleBounds := (\<lambda>pa. (2, 10))\<rparr>) (testScaler True) (testConfig True)
        (testPA ConditionUnknown) (testSKS SKSOperationModeServe) (- 1)
      = ((2, None), [DynamicPatch ''deployments'' ''default'' ''rev-deployment'' ''patch''])
   \<and> ScaleBounds testExternals (testPA ConditionUnknown) = (0, 10)
   \<and> (0 :: int32) \<le>s 0
   \<and> applyBounds 0 10 (- 1) = 0
   \<and> handleScaleToZero testExternals (testScaler True) (testConfig True)
        (testPA ConditionUnknown) (testSKS SKSOperationModeServe) 0
      = ((- 1, False), [EnqueueCB (testPA ConditionUnknown) (610 * Second)])
   \<and> scale testExternals (testScaler True) (testConfig True)
        (testPA ConditionUnknown) (testSKS SKSOperationModeServe) (- 1)
      = ((- 1, None), [EnqueueCB (testPA ConditionUnknown) (610 * Second)])"
proof -
  have h2: "handleScaleToZero (testExternals\<lparr>ScaleBounds := (\<lambda>pa. (2, 10))\<rparr>) (testScaler True)
        (testConfig True) (testPA ConditionUnknown) (testSKS SKSOperationModeServe) 2
      = ((2, True), [])"
    by (simp add: handleScaleToZero_def)
  have h0: "handleScaleToZero testExternals (testScaler True) (testConfig True)
        (testPA ConditionUnknown) (testSKS SKSOperationModeServe) 0
      = ((- 1, False), [EnqueueCB (testPA ConditionUnknown) (610 * Second)])"
    by (simp add: handleScaleToZero_def testConfig_def testPA_def testExternals_def
          IsActivating_def activationTimeoutBuffer_def scaleUnknown_def Second_def)
  have ap: "applyScale (testExternals\<lparr>ScaleBounds := (\<lambda>pa. (2, 10))\<rparr>) (testPA ConditionUnknown) 2
              \<lparr>psName = ''rev-deployment'', psSpec = \<lparr>Replicas = Some 3\<rparr>\<rparr>
            = (None, [DynamicPatch ''deployments'' ''default'' ''rev-deployment'' ''patch''])"
    by (simp add: applyScale_def testExternals_def testPA_def)
  show ?thesis
    using scale_negative_desired [where x = "- 1" and mn = 2 and mx = 10 and d = "- 1"
            and pa = "testPA ConditionUnknown"
            and e = "testExternals\<lparr>ScaleBounds := (\<lambda>pa. (2, 10))\<rparr>"
            and ks = "testScaler True" and cfgs = "testConfig True"
            and sks = "testSKS SKSOperationModeServe"]
          scale_negative_desired [where x = "- 1" and mn = 0 and mx = 10 and d = "- 1"
            and pa = "testPA ConditionUnknown" and e = testExternals
            and ks = "testScaler True" and cfgs = "testConfig True"
            and sks = "testSKS SKSOperationModeServe"]
          h2 h0 ap
    by (simp add: testPA_def testExternals_def word_sless_alt word_sle_eq)
qed

end
